theory Spec2Isabelle
  imports Complex_Main
begin

section \<open>Values, rows and data frames\<close>

text \<open>
  The script \<open>etl.py\<close> issues declarative requests to a data-frame/SQL engine. The
  engine is not part of the repository, so the operations the script calls are modelled
  here as far as the script relies on them: a cell is null or a typed value, a row is a
  list of cells, a data frame is a list of column names with a list of rows. A DOUBLE is
  represented by the real number it denotes and a TIMESTAMP by its microseconds since the
  epoch.
\<close>

datatype val = VNull | VStr string | VInt int | VDbl real | VTs int | VBool bool

type_synonym row = "val list"

record dataframe =
  columns :: "string list"
  rows :: "row list"

datatype error =
    UnresolvedColumn string
  | AmbiguousColumn string
  | UndefinedFunction string
  | PathNotFound string
  | UnableToInferSchema string
  | TableNotFound string

text \<open>
  What the engine computes on doubles and timestamps is a parameter of the model: the
  double division of two integers, the cast of a double (seconds) to a timestamp, the
  calendar fields of a timestamp in the session's time zone, and the value a
  partition column has when a partitioned table is read back from its directory names.
\<close>

record engine =
  double_div :: "int \<Rightarrow> int \<Rightarrow> real"
  double_to_timestamp :: "real \<Rightarrow> int"
  hour_of :: "int \<Rightarrow> int"
  dayofmonth_of :: "int \<Rightarrow> int"
  weekofyear_of :: "int \<Rightarrow> int"
  month_of :: "int \<Rightarrow> int"
  year_of :: "int \<Rightarrow> int"
  dayofweek_of :: "int \<Rightarrow> int"
  partition_readback :: "val \<Rightarrow> val"

subsection \<open>Expressions\<close>

text \<open>
  The script writes its expressions as strings (\<open>'event_ts as start_time'\<close>,
  \<open>"page = 'NextSong' AND status = 200"\<close>) or builds them from columns
  (\<open>col('ts') / 1000\<close>). They are given here as syntax trees.
\<close>

datatype expr =
    Col string
  | QCol string string
  | Lit val
  | Eq expr expr
  | And expr expr
  | Div expr expr
  | CastTimestamp expr
  | Call string expr
  | As expr string

text \<open>A scope lists the columns in sight, each with the alias of its relation.\<close>

type_synonym scope = "(string \<times> string) list"

fun cell :: "row \<Rightarrow> nat \<Rightarrow> val" where
  "cell [] i = VNull"
| "cell (v # vs) 0 = v"
| "cell (v # vs) (Suc i) = cell vs i"

fun matches :: "('a \<Rightarrow> bool) \<Rightarrow> 'a list \<Rightarrow> nat \<Rightarrow> nat list" where
  "matches P [] i = []"
| "matches P (x # xs) i = (if P x then i # matches P xs (Suc i) else matches P xs (Suc i))"

definition resolve :: "string \<Rightarrow> nat list \<Rightarrow> error + (row \<Rightarrow> val)" where
  "resolve n is =
     (case is of
        [] \<Rightarrow> Inl (UnresolvedColumn n)
      | [i] \<Rightarrow> Inr (\<lambda>r. cell r i)
      | _ \<Rightarrow> Inl (AmbiguousColumn n))"

text \<open>SQL's three-valued comparison and conjunction.\<close>

definition sql_eq :: "val \<Rightarrow> val \<Rightarrow> val" where
  "sql_eq a b = (if a = VNull \<or> b = VNull then VNull else VBool (a = b))"

definition sql_and :: "val \<Rightarrow> val \<Rightarrow> val" where
  "sql_and a b =
     (if a = VBool False \<or> b = VBool False then VBool False
      else if a = VBool True \<and> b = VBool True then VBool True
      else VNull)"

text \<open>
  \<open>/\<close> on two integral columns is the engine's double division (null on a null operand
  or a zero divisor); the cast to a timestamp takes a double of seconds.
\<close>

definition sql_div :: "engine \<Rightarrow> val \<Rightarrow> val \<Rightarrow> val" where
  "sql_div eng a b =
     (case (a, b) of
        (VInt x, VInt y) \<Rightarrow> if y = 0 then VNull else VDbl (double_div eng x y)
      | _ \<Rightarrow> VNull)"

definition cast_timestamp :: "engine \<Rightarrow> val \<Rightarrow> val" where
  "cast_timestamp eng a =
     (case a of VDbl d \<Rightarrow> VTs (double_to_timestamp eng d) | VTs t \<Rightarrow> VTs t | _ \<Rightarrow> VNull)"

definition builtin :: "engine \<Rightarrow> string \<Rightarrow> (int \<Rightarrow> int) option" where
  "builtin eng f =
     (if f = ''hour'' then Some (hour_of eng)
      else if f = ''day'' then Some (dayofmonth_of eng)
      else if f = ''weekofyear'' then Some (weekofyear_of eng)
      else if f = ''month'' then Some (month_of eng)
      else if f = ''year'' then Some (year_of eng)
      else if f = ''dayofweek'' then Some (dayofweek_of eng)
      else None)"

definition apply_builtin :: "(int \<Rightarrow> int) \<Rightarrow> val \<Rightarrow> val" where
  "apply_builtin g a = (case a of VTs t \<Rightarrow> VInt (g t) | _ \<Rightarrow> VNull)"

text \<open>
  Analysis resolves an expression against a scope, once, and fails on a column that is
  absent or in sight twice; what it returns is evaluated on each row.
\<close>

fun compile :: "engine \<Rightarrow> scope \<Rightarrow> expr \<Rightarrow> error + (row \<Rightarrow> val)" where
  "compile eng sc (Col n) = resolve n (matches (\<lambda>qc. snd qc = n) sc 0)"
| "compile eng sc (QCol q n) = resolve n (matches (\<lambda>qc. qc = (q, n)) sc 0)"
| "compile eng sc (Lit v) = Inr (\<lambda>r. v)"
| "compile eng sc (Eq a b) =
     (case compile eng sc a of Inl e \<Rightarrow> Inl e | Inr f \<Rightarrow>
       (case compile eng sc b of Inl e \<Rightarrow> Inl e | Inr g \<Rightarrow>
          Inr (\<lambda>r. sql_eq (f r) (g r))))"
| "compile eng sc (And a b) =
     (case compile eng sc a of Inl e \<Rightarrow> Inl e | Inr f \<Rightarrow>
       (case compile eng sc b of Inl e \<Rightarrow> Inl e | Inr g \<Rightarrow>
          Inr (\<lambda>r. sql_and (f r) (g r))))"
| "compile eng sc (Div a b) =
     (case compile eng sc a of Inl e \<Rightarrow> Inl e | Inr f \<Rightarrow>
       (case compile eng sc b of Inl e \<Rightarrow> Inl e | Inr g \<Rightarrow>
          Inr (\<lambda>r. sql_div eng (f r) (g r))))"
| "compile eng sc (CastTimestamp a) =
     (case compile eng sc a of Inl e \<Rightarrow> Inl e | Inr f \<Rightarrow>
        Inr (\<lambda>r. cast_timestamp eng (f r)))"
| "compile eng sc (Call fn a) =
     (case builtin eng fn of None \<Rightarrow> Inl (UndefinedFunction fn) | Some g \<Rightarrow>
       (case compile eng sc a of Inl e \<Rightarrow> Inl e | Inr f \<Rightarrow>
          Inr (\<lambda>r. apply_builtin g (f r))))"
| "compile eng sc (As a n) = compile eng sc a"

fun compile_all :: "engine \<Rightarrow> scope \<Rightarrow> expr list \<Rightarrow> error + (row \<Rightarrow> val) list" where
  "compile_all eng sc [] = Inr []"
| "compile_all eng sc (a # as) =
     (case compile eng sc a of Inl e \<Rightarrow> Inl e | Inr f \<Rightarrow>
       (case compile_all eng sc as of Inl e \<Rightarrow> Inl e | Inr fs \<Rightarrow> Inr (f # fs)))"

text \<open>The name of the output column an expression of a select list gets.\<close>

fun name_of :: "expr \<Rightarrow> string" where
  "name_of (Col n) = n"
| "name_of (QCol q n) = n"
| "name_of (As a n) = n"
| "name_of (Call fn a) = fn @ ''('' @ name_of a @ '')''"
| "name_of (CastTimestamp a) = ''CAST('' @ name_of a @ '' AS TIMESTAMP)''"
| "name_of (Eq a b) = ''('' @ name_of a @ '' = '' @ name_of b @ '')''"
| "name_of (And a b) = ''('' @ name_of a @ '' AND '' @ name_of b @ '')''"
| "name_of (Div a b) = ''('' @ name_of a @ '' / '' @ name_of b @ '')''"
| "name_of (Lit v) = ''literal''"

subsection \<open>Data-frame operations\<close>

definition scope_of :: "string \<Rightarrow> string list \<Rightarrow> scope" where
  "scope_of alias cs = map (Pair alias) cs"

definition project :: "(row \<Rightarrow> val) list \<Rightarrow> row \<Rightarrow> row" where
  "project fs r = map (\<lambda>f. f r) fs"

definition selectExpr :: "engine \<Rightarrow> dataframe \<Rightarrow> expr list \<Rightarrow> error + dataframe" where
  "selectExpr eng df es =
     (case compile_all eng (scope_of [] (columns df)) es of
        Inl e \<Rightarrow> Inl e
      | Inr fs \<Rightarrow> Inr \<lparr>columns = map name_of es, rows = map (project fs) (rows df)\<rparr>)"

definition select :: "engine \<Rightarrow> dataframe \<Rightarrow> string list \<Rightarrow> error + dataframe" where
  "select eng df ns = selectExpr eng df (map Col ns)"

definition distinct_df :: "dataframe \<Rightarrow> dataframe" where
  "distinct_df df = df\<lparr>rows := remdups (rows df)\<rparr>"

definition filter_df :: "engine \<Rightarrow> dataframe \<Rightarrow> expr \<Rightarrow> error + dataframe" where
  "filter_df eng df c =
     (case compile eng (scope_of [] (columns df)) c of
        Inl e \<Rightarrow> Inl e
      | Inr f \<Rightarrow> Inr (df\<lparr>rows := filter (\<lambda>r. f r = VBool True) (rows df)\<rparr>))"

fun replace_cell :: "string list \<Rightarrow> string \<Rightarrow> val \<Rightarrow> row \<Rightarrow> row" where
  "replace_cell (c # cs) n v (x # xs) = (if c = n then v else x) # replace_cell cs n v xs"
| "replace_cell cs n v xs = xs"

definition withColumn :: "engine \<Rightarrow> dataframe \<Rightarrow> string \<Rightarrow> expr \<Rightarrow> error + dataframe" where
  "withColumn eng df n a =
     (case compile eng (scope_of [] (columns df)) a of
        Inl e \<Rightarrow> Inl e
      | Inr f \<Rightarrow>
          if n \<in> set (columns df)
          then Inr (df\<lparr>rows := map (\<lambda>r. replace_cell (columns df) n (f r) r) (rows df)\<rparr>)
          else Inr \<lparr>columns = columns df @ [n], rows = map (\<lambda>r. r @ [f r]) (rows df)\<rparr>)"

subsection \<open>SQL over temporary views\<close>

text \<open>
  A query \<open>SELECT [DISTINCT] items FROM view AS alias, ... WHERE condition\<close>: the rows of
  the relations are combined in all ways, those on which the condition is true are kept,
  and the select list is evaluated on each.
\<close>

record query =
  q_distinct :: bool
  q_select :: "expr list"
  q_from :: "(string \<times> string) list"
  q_where :: expr

fun cross :: "row list list \<Rightarrow> row list" where
  "cross [] = [[]]"
| "cross (t # ts) = concat (map (\<lambda>r. map (\<lambda>rest. r @ rest) (cross ts)) t)"

fun from_clause ::
  "(string \<rightharpoonup> dataframe) \<Rightarrow> (string \<times> string) list \<Rightarrow> error + (scope \<times> row list list)" where
  "from_clause views [] = Inr ([], [])"
| "from_clause views ((v, a) # rest) =
     (case views v of
        None \<Rightarrow> Inl (TableNotFound v)
      | Some df \<Rightarrow>
          (case from_clause views rest of
             Inl e \<Rightarrow> Inl e
           | Inr (sc, ts) \<Rightarrow> Inr (scope_of a (columns df) @ sc, rows df # ts)))"

definition sql :: "engine \<Rightarrow> (string \<rightharpoonup> dataframe) \<Rightarrow> query \<Rightarrow> error + dataframe" where
  "sql eng views q =
     (case from_clause views (q_from q) of
        Inl e \<Rightarrow> Inl e
      | Inr (sc, ts) \<Rightarrow>
          (case compile eng sc (q_where q) of
             Inl e \<Rightarrow> Inl e
           | Inr c \<Rightarrow>
               (case compile_all eng sc (q_select q) of
                  Inl e \<Rightarrow> Inl e
                | Inr fs \<Rightarrow>
                    (let out = map (project fs) (filter (\<lambda>r. c r = VBool True) (cross ts))
                     in Inr \<lparr>columns = map name_of (q_select q),
                             rows = (if q_distinct q then remdups out else out)\<rparr>))))"

section \<open>Storage and session\<close>

text \<open>
  The raw inputs are the records the engine's JSON reader yields under the schema the
  script declares: every column is nullable. A path pattern that matches no file is absent
  from the map, and reading it raises.
\<close>

record song_record =
  song_id :: "string option"
  num_songs :: "int option"
  artist_id :: "string option"
  artist_latitude :: "real option"
  artist_longitude :: "real option"
  artist_location :: "string option"
  artist_name :: "string option"
  title :: "string option"
  duration :: "real option"
  year :: "int option"

record event_record =
  artist :: "string option"
  auth :: "string option"
  first_name :: "string option"
  gender :: "string option"
  item_in_session :: "int option"
  last_name :: "string option"
  length_col :: "real option"
  level :: "string option"
  location :: "string option"
  method_col :: "string option"
  page :: "string option"
  registration :: "real option"
  session_id :: "int option"
  song :: "string option"
  status :: "int option"
  ts :: "int option"
  user_agent :: "string option"
  user_id :: "int option"

text \<open>
  A table written as parquet keeps its columns, the columns it is partitioned by (in
  order) and its rows.
\<close>

record stored =
  st_columns :: "string list"
  st_partition :: "string list"
  st_rows :: "row list"

record world =
  song_json :: "string \<rightharpoonup> song_record list"
  event_json :: "string \<rightharpoonup> event_record list"
  tables :: "string \<rightharpoonup> stored"
  session_active :: bool
  stop_calls :: nat

text \<open>
  A step of the script either returns or raises, and may have changed the storage before
  it raised.
\<close>

type_synonym 'a prog = "world \<Rightarrow> (error + 'a) \<times> world"

definition and_then :: "'a prog \<Rightarrow> ('a \<Rightarrow> 'b prog) \<Rightarrow> 'b prog" where
  "and_then m k w = (case m w of (Inl e, w') \<Rightarrow> (Inl e, w') | (Inr x, w') \<Rightarrow> k x w')"

definition lift :: "error + 'a \<Rightarrow> 'a prog" where
  "lift r w = (r, w)"

subsection \<open>Schemas and typed reads\<close>

datatype coltype = StringType | IntegerType | LongType | DoubleType

definition song_schema :: "(string \<times> coltype) list" where
  "song_schema =
     [(''song_id'', StringType),
      (''num_songs'', IntegerType),
      (''artist_id'', StringType),
      (''artist_latitude'', DoubleType),
      (''artist_longitude'', DoubleType),
      (''artist_location'', StringType),
      (''artist_name'', StringType),
      (''title'', StringType),
      (''duration'', DoubleType),
      (''year'', IntegerType)]"

definition event_schema :: "(string \<times> coltype) list" where
  "event_schema =
     [(''artist'', StringType),
      (''auth'', StringType),
      (''first_name'', StringType),
      (''gender'', StringType),
      (''item_in_session'', IntegerType),
      (''last_name'', StringType),
      (''length'', DoubleType),
      (''level'', StringType),
      (''location'', StringType),
      (''method'', StringType),
      (''page'', StringType),
      (''registration'', DoubleType),
      (''session_id'', LongType),
      (''song'', StringType),
      (''status'', IntegerType),
      (''ts'', LongType),
      (''user_agent'', StringType),
      (''user_id'', LongType)]"

definition vstr :: "string option \<Rightarrow> val" where
  "vstr x = (case x of None \<Rightarrow> VNull | Some s \<Rightarrow> VStr s)"

definition vint :: "int option \<Rightarrow> val" where
  "vint x = (case x of None \<Rightarrow> VNull | Some i \<Rightarrow> VInt i)"

definition vdbl :: "real option \<Rightarrow> val" where
  "vdbl x = (case x of None \<Rightarrow> VNull | Some d \<Rightarrow> VDbl d)"

definition song_row :: "song_record \<Rightarrow> row" where
  "song_row s =
     [vstr (song_id s), vint (num_songs s), vstr (artist_id s), vdbl (artist_latitude s),
      vdbl (artist_longitude s), vstr (artist_location s), vstr (artist_name s),
      vstr (title s), vdbl (duration s), vint (year s)]"

definition event_row :: "event_record \<Rightarrow> row" where
  "event_row e =
     [vstr (artist e), vstr (auth e), vstr (first_name e), vstr (gender e),
      vint (item_in_session e), vstr (last_name e), vdbl (length_col e), vstr (level e),
      vstr (location e), vstr (method_col e), vstr (page e), vdbl (registration e),
      vint (session_id e), vstr (song e), vint (status e), vint (ts e),
      vstr (user_agent e), vint (user_id e)]"

definition read_song_json :: "string \<Rightarrow> dataframe prog" where
  "read_song_json path w =
     (case song_json w path of
        None \<Rightarrow> (Inl (PathNotFound path), w)
      | Some rs \<Rightarrow> (Inr \<lparr>columns = map fst song_schema, rows = map song_row rs\<rparr>, w))"

definition read_event_json :: "string \<Rightarrow> dataframe prog" where
  "read_event_json path w =
     (case event_json w path of
        None \<Rightarrow> (Inl (PathNotFound path), w)
      | Some es \<Rightarrow> (Inr \<lparr>columns = map fst event_schema, rows = map event_row es\<rparr>, w))"

subsection \<open>Parquet tables\<close>

fun field :: "string list \<Rightarrow> row \<Rightarrow> string \<Rightarrow> val" where
  "field (c # cs) (v # vs) n = (if c = n then v else field cs vs n)"
| "field cs vs n = VNull"

text \<open>
  \<open>write.mode('overwrite').partitionBy(ps).parquet(path)\<close> replaces what the path held.
  Reading a partitioned table back gives the data columns first and the partition columns
  last, with the values the engine recovers from the directory names. A partitioned table
  written with no rows leaves no file under its path, and reading it raises: the engine
  finds no schema there.
\<close>

definition write_parquet :: "dataframe \<Rightarrow> string list \<Rightarrow> string \<Rightarrow> unit prog" where
  "write_parquet df ps path w =
     (case filter (\<lambda>p. p \<notin> set (columns df)) ps of
        p # _ \<Rightarrow> (Inl (UnresolvedColumn p), w)
      | [] \<Rightarrow>
          (Inr (),
           w\<lparr>tables := (tables w)(path \<mapsto>
                \<lparr>st_columns = columns df, st_partition = ps, st_rows = rows df\<rparr>)\<rparr>))"

definition read_parquet :: "engine \<Rightarrow> string \<Rightarrow> dataframe prog" where
  "read_parquet eng path w =
     (case tables w path of
        None \<Rightarrow> (Inl (PathNotFound path), w)
      | Some t \<Rightarrow>
          if st_partition t \<noteq> [] \<and> st_rows t = [] then (Inl (UnableToInferSchema path), w)
          else
          (let dcs = filter (\<lambda>c. c \<notin> set (st_partition t)) (st_columns t)
           in (Inr \<lparr>columns = dcs @ st_partition t,
                    rows = map (\<lambda>r. map (field (st_columns t) r) dcs @
                                    map (\<lambda>p. partition_readback eng (field (st_columns t) r p))
                                        (st_partition t))
                               (st_rows t)\<rparr>, w)))"

subsection \<open>Session\<close>

definition create_spark_session :: "world \<Rightarrow> world" where
  "create_spark_session w = w\<lparr>session_active := True\<rparr>"

definition spark_stop :: "unit prog" where
  "spark_stop w = (Inr (), w\<lparr>session_active := False, stop_calls := Suc (stop_calls w)\<rparr>)"

section \<open>The script\<close>

definition process_song_data :: "engine \<Rightarrow> string \<Rightarrow> string \<Rightarrow> unit prog" where
  "process_song_data eng input_data output_data =
     (let song_data = input_data @ ''song_data/*/*/*/*.json'' in
      and_then (read_song_json song_data) (\<lambda>df.
      and_then (lift (select eng df
                  [''song_id'', ''title'', ''artist_id'', ''year'', ''duration''])) (\<lambda>sel.
      let songs_table = distinct_df sel in
      and_then (write_parquet songs_table [''year'', ''artist_id'']
                  (output_data @ ''dimensions.parquet/songs'')) (\<lambda>_.
      and_then (lift (selectExpr eng df
                  [Col ''artist_id'',
                   As (Col ''artist_name'') ''name'',
                   As (Col ''artist_location'') ''location'',
                   As (Col ''artist_latitude'') ''latitude'',
                   As (Col ''artist_longitude'') ''longitude''])) (\<lambda>sel'.
      let artists_table = distinct_df sel' in
      write_parquet artists_table [] (output_data @ ''dimensions.parquet/artists''))))))"

definition songplays_query :: query where
  "songplays_query =
     \<lparr>q_distinct = True,
      q_select =
        [Col ''event_ts'',
         As (Call ''year'' (Col ''event_ts'')) ''year'',
         As (Call ''month'' (Col ''event_ts'')) ''month'',
         Col ''user_id'',
         Col ''level'',
         Col ''session_id'',
         QCol ''ev'' ''location'',
         Col ''user_agent'',
         QCol ''s'' ''song_id'',
         QCol ''a'' ''artist_id''],
      q_from = [(''events'', ''ev''), (''song'', ''s''), (''artist'', ''a'')],
      q_where =
        And (Eq (QCol ''ev'' ''song'') (QCol ''s'' ''title''))
            (Eq (QCol ''ev'' ''artist'') (QCol ''a'' ''name''))\<rparr>"

definition process_log_data :: "engine \<Rightarrow> string \<Rightarrow> string \<Rightarrow> unit prog" where
  "process_log_data eng input_data output_data =
     (let log_data = input_data @ ''log_data/*/*/*-events.json'' in
      and_then (read_event_json log_data) (\<lambda>df0.
      and_then (lift (filter_df eng df0
                  (And (Eq (Col ''page'') (Lit (VStr ''NextSong'')))
                       (Eq (Col ''status'') (Lit (VInt 200)))))) (\<lambda>df1.
      and_then (lift (select eng df1
                  [''user_id'', ''first_name'', ''last_name'', ''gender'', ''level''])) (\<lambda>sel.
      let users_table = distinct_df sel in
      and_then (write_parquet users_table [] (output_data @ ''dimensions.parquet/users'')) (\<lambda>_.
      and_then (lift (withColumn eng df1 ''event_ts''
                  (CastTimestamp (Div (Col ''ts'') (Lit (VInt 1000)))))) (\<lambda>df.
      and_then (lift (selectExpr eng df
                  [As (Col ''event_ts'') ''start_time'',
                   As (Call ''hour'' (Col ''event_ts'')) ''hour'',
                   As (Call ''day'' (Col ''event_ts'')) ''day'',
                   As (Call ''weekofyear'' (Col ''event_ts'')) ''week'',
                   As (Call ''month'' (Col ''event_ts'')) ''month'',
                   As (Call ''year'' (Col ''event_ts'')) ''year'',
                   As (Call ''dayofweek'' (Col ''event_ts'')) ''weekday''])) (\<lambda>sel'.
      let time_table = distinct_df sel' in
      and_then (write_parquet time_table [''year'', ''month'']
                  (output_data @ ''dimensions.parquet/time'')) (\<lambda>_.
      and_then (read_parquet eng (output_data @ ''dimensions.parquet/songs'')) (\<lambda>song_df.
      and_then (read_parquet eng (output_data @ ''dimensions.parquet/artists'')) (\<lambda>artist_df.
      let views = [''song'' \<mapsto> song_df, ''artist'' \<mapsto> artist_df, ''events'' \<mapsto> df] in
      and_then (lift (sql eng views songplays_query)) (\<lambda>songplays_table.
      write_parquet songplays_table [''year'', ''month'']
        (output_data @ ''facts.parquet/songplays''))))))))))))"

definition main :: "engine \<Rightarrow> world \<Rightarrow> (error + unit) \<times> world" where
  "main eng w =
     (let spark = create_spark_session w;
          input_data = ''s3a://udacity-dend/'';
          output_data = ''s3n://data-lake-cluster/''
      in and_then (process_song_data eng input_data output_data) (\<lambda>_.
         and_then (process_log_data eng input_data output_data) (\<lambda>_.
         spark_stop)) spark)"

section \<open>What the tables hold\<close>

text \<open>
  The paths the driver computes from its two roots, and the rows a table holds at a path
  (none when nothing was written there).
\<close>

definition song_data_path :: string where
  "song_data_path = ''s3a://udacity-dend/song_data/*/*/*/*.json''"

definition log_data_path :: string where
  "log_data_path = ''s3a://udacity-dend/log_data/*/*/*-events.json''"

definition songs_path :: string where
  "songs_path = ''s3n://data-lake-cluster/dimensions.parquet/songs''"

definition artists_path :: string where
  "artists_path = ''s3n://data-lake-cluster/dimensions.parquet/artists''"

definition users_path :: string where
  "users_path = ''s3n://data-lake-cluster/dimensions.parquet/users''"

definition time_path :: string where
  "time_path = ''s3n://data-lake-cluster/dimensions.parquet/time''"

definition songplays_path :: string where
  "songplays_path = ''s3n://data-lake-cluster/facts.parquet/songplays''"

definition table_rows :: "world \<Rightarrow> string \<Rightarrow> row list" where
  "table_rows w p = (case tables w p of None \<Rightarrow> [] | Some t \<Rightarrow> st_rows t)"

definition table_columns :: "world \<Rightarrow> string \<Rightarrow> string list" where
  "table_columns w p = (case tables w p of None \<Rightarrow> [] | Some t \<Rightarrow> st_columns t)"

definition table_partition :: "world \<Rightarrow> string \<Rightarrow> string list" where
  "table_partition w p = (case tables w p of None \<Rightarrow> [] | Some t \<Rightarrow> st_partition t)"

text \<open>
  The rows of each table in terms of the input records. These are the closed forms the
  pipelines are shown to compute; the properties are stated with them.
\<close>

definition songs_columns :: "string list" where
  "songs_columns = [''song_id'', ''title'', ''artist_id'', ''year'', ''duration'']"

definition artists_columns :: "string list" where
  "artists_columns = [''artist_id'', ''name'', ''location'', ''latitude'', ''longitude'']"

definition songplays_columns :: "string list" where
  "songplays_columns =
     [''event_ts'', ''year'', ''month'', ''user_id'', ''level'', ''session_id'', ''location'',
      ''user_agent'', ''song_id'', ''artist_id'']"

definition song_dim_row :: "song_record \<Rightarrow> row" where
  "song_dim_row s =
     [vstr (song_id s), vstr (title s), vstr (artist_id s), vint (year s), vdbl (duration s)]"

definition artist_dim_row :: "song_record \<Rightarrow> row" where
  "artist_dim_row s =
     [vstr (artist_id s), vstr (artist_name s), vstr (artist_location s),
      vdbl (artist_latitude s), vdbl (artist_longitude s)]"

definition is_song_play :: "event_record \<Rightarrow> bool" where
  "is_song_play e = (page e = Some ''NextSong'' \<and> status e = Some 200)"

definition event_ts :: "engine \<Rightarrow> event_record \<Rightarrow> val" where
  "event_ts eng e = cast_timestamp eng (sql_div eng (vint (ts e)) (VInt 1000))"

definition event_ts_row :: "engine \<Rightarrow> event_record \<Rightarrow> row" where
  "event_ts_row eng e = event_row e @ [event_ts eng e]"

definition user_dim_row :: "event_record \<Rightarrow> row" where
  "user_dim_row e =
     [vint (user_id e), vstr (first_name e), vstr (last_name e), vstr (gender e),
      vstr (level e)]"

definition time_dim_row :: "engine \<Rightarrow> event_record \<Rightarrow> row" where
  "time_dim_row eng e =
     [event_ts eng e,
      apply_builtin (hour_of eng) (event_ts eng e),
      apply_builtin (dayofmonth_of eng) (event_ts eng e),
      apply_builtin (weekofyear_of eng) (event_ts eng e),
      apply_builtin (month_of eng) (event_ts eng e),
      apply_builtin (year_of eng) (event_ts eng e),
      apply_builtin (dayofweek_of eng) (event_ts eng e)]"

text \<open>The time row of an event whose \<open>ts\<close> is \<open>T\<close> milliseconds.\<close>

definition time_row_at :: "engine \<Rightarrow> int \<Rightarrow> row" where
  "time_row_at eng T =
     (let t = double_to_timestamp eng (double_div eng T 1000)
      in [VTs t, VInt (hour_of eng t), VInt (dayofmonth_of eng t), VInt (weekofyear_of eng t),
          VInt (month_of eng t), VInt (year_of eng t), VInt (dayofweek_of eng t)])"

text \<open>
  What reading the two dimension tables back yields for a stored row: the songs table is
  partitioned by \<open>year\<close> and \<open>artist_id\<close>, which come last and through the engine's
  recovery of partition values.
\<close>

definition song_readback :: "engine \<Rightarrow> row \<Rightarrow> row" where
  "song_readback eng r =
     [field songs_columns r ''song_id'', field songs_columns r ''title'',
      field songs_columns r ''duration'',
      partition_readback eng (field songs_columns r ''year''),
      partition_readback eng (field songs_columns r ''artist_id'')]"

definition artist_readback :: "row \<Rightarrow> row" where
  "artist_readback r =
     [field artists_columns r ''artist_id'', field artists_columns r ''name'',
      field artists_columns r ''location'', field artists_columns r ''latitude'',
      field artists_columns r ''longitude'']"

text \<open>
  The join of an event with a stored song row and a stored artist row: the condition of
  the query's WHERE clause and the row its select list builds.
\<close>

definition joins :: "event_record \<Rightarrow> row \<Rightarrow> row \<Rightarrow> bool" where
  "joins e s a =
     (sql_and (sql_eq (vstr (song e)) (field songs_columns s ''title''))
              (sql_eq (vstr (artist e)) (field artists_columns a ''name'')) = VBool True)"

definition songplay_row :: "engine \<Rightarrow> event_record \<Rightarrow> row \<Rightarrow> row \<Rightarrow> row" where
  "songplay_row eng e s a =
     [event_ts eng e,
      apply_builtin (year_of eng) (event_ts eng e),
      apply_builtin (month_of eng) (event_ts eng e),
      vint (user_id e), vstr (level e), vint (session_id e), vstr (location e),
      vstr (user_agent e),
      field songs_columns s ''song_id'',
      field artists_columns a ''artist_id'']"

definition join_rows ::
  "engine \<Rightarrow> event_record list \<Rightarrow> row list \<Rightarrow> row list \<Rightarrow> row list" where
  "join_rows eng es S A =
     concat (map (\<lambda>e. concat (map (\<lambda>s. concat (map (\<lambda>a.
       if joins e s a then [songplay_row eng e s a] else []) A)) S)) es)"

definition songs_table :: "song_record list \<Rightarrow> stored" where
  "songs_table ss =
     \<lparr>st_columns = songs_columns, st_partition = [''year'', ''artist_id''],
      st_rows = remdups (map song_dim_row ss)\<rparr>"

definition artists_table :: "song_record list \<Rightarrow> stored" where
  "artists_table ss =
     \<lparr>st_columns = artists_columns, st_partition = [],
      st_rows = remdups (map artist_dim_row ss)\<rparr>"

definition users_table :: "event_record list \<Rightarrow> stored" where
  "users_table es =
     \<lparr>st_columns = [''user_id'', ''first_name'', ''last_name'', ''gender'', ''level''],
      st_partition = [],
      st_rows = remdups (map user_dim_row (filter is_song_play es))\<rparr>"

definition time_table :: "engine \<Rightarrow> event_record list \<Rightarrow> stored" where
  "time_table eng es =
     \<lparr>st_columns = [''start_time'', ''hour'', ''day'', ''week'', ''month'', ''year'', ''weekday''],
      st_partition = [''year'', ''month''],
      st_rows = remdups (map (time_dim_row eng) (filter is_song_play es))\<rparr>"

definition songplays_table ::
  "engine \<Rightarrow> stored \<Rightarrow> stored \<Rightarrow> event_record list \<Rightarrow> stored" where
  "songplays_table eng sg ar es =
     \<lparr>st_columns = songplays_columns, st_partition = [''year'', ''month''],
      st_rows = remdups (join_rows eng (filter is_song_play es) (st_rows sg) (st_rows ar))\<rparr>"

section \<open>The record layouts the specification lists\<close>

text \<open>
  The columns of the two raw record types in the order and with the types of the
  specification's data model, where \<open>first_name\<close> and \<open>last_name\<close> stand together.
\<close>

definition spec_song_schema :: "(string \<times> coltype) list" where
  "spec_song_schema =
     [(''song_id'', StringType), (''num_songs'', IntegerType), (''artist_id'', StringType),
      (''artist_latitude'', DoubleType), (''artist_longitude'', DoubleType),
      (''artist_location'', StringType), (''artist_name'', StringType),
      (''title'', StringType), (''duration'', DoubleType), (''year'', IntegerType)]"

definition spec_event_schema :: "(string \<times> coltype) list" where
  "spec_event_schema =
     [(''artist'', StringType), (''auth'', StringType), (''first_name'', StringType),
      (''last_name'', StringType), (''gender'', StringType), (''item_in_session'', IntegerType),
      (''length'', DoubleType), (''level'', StringType), (''location'', StringType),
      (''method'', StringType), (''page'', StringType), (''registration'', DoubleType),
      (''session_id'', LongType), (''song'', StringType), (''status'', IntegerType),
      (''ts'', LongType), (''user_agent'', StringType), (''user_id'', LongType)]"

section \<open>A concrete engine and concrete inputs\<close>

text \<open>
  An instance of the engine parameter, to run the script on concrete inputs: exact
  division, truncation to microseconds, and the proleptic Gregorian calendar in UTC with
  ISO weeks and Sunday as day 1 of the week. Partition values are read back unchanged.
\<close>

definition civil_from_days :: "int \<Rightarrow> int \<times> int \<times> int" where
  "civil_from_days days =
     (let z = days + 719468;
          era = z div 146097;
          doe = z mod 146097;
          yoe = (doe - doe div 1460 + doe div 36524 - doe div 146096) div 365;
          doy = doe - (365 * yoe + yoe div 4 - yoe div 100);
          mp = (5 * doy + 2) div 153;
          d = doy - (153 * mp + 2) div 5 + 1;
          m = (if mp < 10 then mp + 3 else mp - 9);
          y = yoe + era * 400 + (if m \<le> 2 then 1 else 0)
      in (y, m, d))"

definition days_from_civil :: "int \<Rightarrow> int \<Rightarrow> int \<Rightarrow> int" where
  "days_from_civil y m d =
     (let y' = (if m \<le> 2 then y - 1 else y);
          era = y' div 400;
          yoe = y' mod 400;
          doy = (153 * (if m > 2 then m - 3 else m + 9) + 2) div 5 + d - 1;
          doe = yoe * 365 + yoe div 4 - yoe div 100 + doy
      in era * 146097 + doe - 719468)"

definition iso_weeks_in_year :: "int \<Rightarrow> int" where
  "iso_weeks_in_year y =
     (let p = (\<lambda>x. (x + x div 4 - x div 100 + x div 400) mod 7)
      in if p y = 4 \<or> p (y - 1) = 3 then 53 else 52)"

definition iso_week :: "int \<Rightarrow> int" where
  "iso_week days =
     (let y = fst (civil_from_days days);
          ordinal = days - days_from_civil y 1 1 + 1;
          weekday = (days + 3) mod 7 + 1;
          w = (ordinal - weekday + 10) div 7
      in if w < 1 then iso_weeks_in_year (y - 1)
         else if w > iso_weeks_in_year y then 1
         else w)"

definition utc_engine :: engine where
  "utc_engine =
     \<lparr>double_div = (\<lambda>a b. real_of_int a / real_of_int b),
      double_to_timestamp = (\<lambda>d. \<lfloor>d * 1000000\<rfloor>),
      hour_of = (\<lambda>t. (t div 3600000000) mod 24),
      dayofmonth_of = (\<lambda>t. snd (snd (civil_from_days (t div 86400000000)))),
      weekofyear_of = (\<lambda>t. iso_week (t div 86400000000)),
      month_of = (\<lambda>t. fst (snd (civil_from_days (t div 86400000000)))),
      year_of = (\<lambda>t. fst (civil_from_days (t div 86400000000))),
      dayofweek_of = (\<lambda>t. (t div 86400000000 + 4) mod 7 + 1),
      partition_readback = (\<lambda>v. v)\<rparr>"

text \<open>
  Three catalog records (two songs titled Hello by different artists, and a record
  without title and artist name) and three events (a play of Adele's Hello, a page view,
  and a play that names neither song nor artist).
\<close>

definition hello_adele :: song_record where
  "hello_adele =
     \<lparr>song_id = Some ''S1'', num_songs = Some 1, artist_id = Some ''A1'',
      artist_latitude = None, artist_longitude = None, artist_location = None,
      artist_name = Some ''Adele'', title = Some ''Hello'', duration = Some 295.5,
      year = Some 2015\<rparr>"

definition hello_lionel :: song_record where
  "hello_lionel =
     \<lparr>song_id = Some ''S2'', num_songs = Some 1, artist_id = Some ''A2'',
      artist_latitude = None, artist_longitude = None, artist_location = None,
      artist_name = Some ''Lionel Richie'', title = Some ''Hello'', duration = Some 250,
      year = Some 1983\<rparr>"

definition untitled :: song_record where
  "untitled =
     \<lparr>song_id = Some ''S3'', num_songs = Some 1, artist_id = Some ''A3'',
      artist_latitude = None, artist_longitude = None, artist_location = None,
      artist_name = None, title = None, duration = None, year = Some 0\<rparr>"

definition play_hello :: event_record where
  "play_hello =
     \<lparr>artist = Some ''Adele'', auth = Some ''Logged In'', first_name = Some ''Ann'',
      gender = Some ''F'', item_in_session = Some 0, last_name = Some ''Lee'',
      length_col = Some 295.5, level = Some ''paid'', location = Some ''NYC'',
      method_col = Some ''PUT'', page = Some ''NextSong'', registration = None,
      session_id = Some 42, song = Some ''Hello'', status = Some 200,
      ts = Some 1500000000000, user_agent = Some ''UA1'', user_id = Some 7\<rparr>"

definition page_view :: event_record where
  "page_view =
     \<lparr>artist = None, auth = Some ''Logged In'', first_name = Some ''Bob'',
      gender = Some ''M'', item_in_session = Some 1, last_name = Some ''Ray'',
      length_col = None, level = Some ''free'', location = Some ''LA'',
      method_col = Some ''GET'', page = Some ''PageView'', registration = None,
      session_id = Some 43, song = None, status = Some 200,
      ts = Some 1500000060000, user_agent = Some ''UA2'', user_id = Some 8\<rparr>"

definition play_unnamed :: event_record where
  "play_unnamed =
     \<lparr>artist = None, auth = Some ''Logged In'', first_name = Some ''Cy'',
      gender = Some ''M'', item_in_session = Some 2, last_name = Some ''Dow'',
      length_col = None, level = Some ''free'', location = Some ''SF'',
      method_col = Some ''PUT'', page = Some ''NextSong'', registration = None,
      session_id = Some 44, song = None, status = Some 200,
      ts = Some 1500000120000, user_agent = Some ''UA3'', user_id = Some 9\<rparr>"

definition sample_world :: world where
  "sample_world =
     \<lparr>song_json = [song_data_path \<mapsto> [hello_adele, hello_lionel, untitled]],
      event_json = [log_data_path \<mapsto> [play_hello, page_view, play_unnamed]],
      tables = Map.empty,
      session_active = False,
      stop_calls = 0\<rparr>"

text \<open>The same storage with no event file under the log pattern.\<close>

definition no_log_world :: world where
  "no_log_world = sample_world\<lparr>event_json := Map.empty\<rparr>"

text \<open>
  The same storage with the play of Hello logged twice, at two times of one session.
\<close>

definition play_hello_again :: event_record where
  "play_hello_again = play_hello\<lparr>item_in_session := Some 1, ts := Some 1500000300000\<rparr>"

definition replay_world :: world where
  "replay_world =
     sample_world\<lparr>event_json := [log_data_path \<mapsto> [play_hello, play_hello_again]]\<rparr>"

text \<open>The same storage where the only events are the unnamed play and the page view.\<close>

definition unnamed_world :: world where
  "unnamed_world =
     sample_world\<lparr>event_json := [log_data_path \<mapsto> [play_unnamed, page_view]]\<rparr>"

section \<open>The pipelines in closed form\<close>

subsection \<open>Song pipeline\<close>

lemma select_songs:
  "select eng \<lparr>columns = map fst song_schema, rows = map song_row ss\<rparr>
     [''song_id'', ''title'', ''artist_id'', ''year'', ''duration'']
   = Inr \<lparr>columns = songs_columns, rows = map song_dim_row ss\<rparr>"
  by (simp add: select_def selectExpr_def song_schema_def scope_of_def resolve_def
      project_def song_row_def song_dim_row_def songs_columns_def)

lemma select_artists:
  "selectExpr eng \<lparr>columns = map fst song_schema, rows = map song_row ss\<rparr>
     [Col ''artist_id'',
      As (Col ''artist_name'') ''name'',
      As (Col ''artist_location'') ''location'',
      As (Col ''artist_latitude'') ''latitude'',
      As (Col ''artist_longitude'') ''longitude'']
   = Inr \<lparr>columns = artists_columns, rows = map artist_dim_row ss\<rparr>"
  by (simp add: selectExpr_def song_schema_def scope_of_def resolve_def
      project_def song_row_def artist_dim_row_def artists_columns_def)

lemma process_song_data_run:
  assumes "song_json w (inp @ ''song_data/*/*/*/*.json'') = Some ss"
  shows "process_song_data eng inp out w =
     (Inr (), w\<lparr>tables := (tables w)
        (out @ ''dimensions.parquet/songs'' \<mapsto> songs_table ss,
         out @ ''dimensions.parquet/artists'' \<mapsto> artists_table ss)\<rparr>)"
  using assms
  by (simp add: process_song_data_def and_then_def read_song_json_def lift_def
      select_songs select_artists distinct_df_def write_parquet_def
      songs_table_def artists_table_def songs_columns_def)

lemma process_song_data_missing:
  assumes "song_json w (inp @ ''song_data/*/*/*/*.json'') = None"
  shows "process_song_data eng inp out w =
     (Inl (PathNotFound (inp @ ''song_data/*/*/*/*.json'')), w)"
  using assms
  by (simp add: process_song_data_def and_then_def read_song_json_def)

subsection \<open>Filtering, projections and the derived timestamp\<close>

lemma filter_song_plays:
  "filter_df eng \<lparr>columns = map fst event_schema, rows = map event_row es\<rparr>
     (And (Eq (Col ''page'') (Lit (VStr ''NextSong''))) (Eq (Col ''status'') (Lit (VInt 200))))
   = Inr \<lparr>columns = map fst event_schema, rows = map event_row (filter is_song_play es)\<rparr>"
proof -
  have "(sql_and (sql_eq (vstr (page e)) (VStr ''NextSong''))
                 (sql_eq (vint (status e)) (VInt 200)) = VBool True) = is_song_play e" for e
    by (cases "page e"; cases "status e")
       (auto simp: sql_and_def sql_eq_def vstr_def vint_def is_song_play_def)
  then show ?thesis
    by (simp add: filter_df_def event_schema_def scope_of_def resolve_def event_row_def
        filter_map comp_def)
qed

lemma select_users:
  "select eng \<lparr>columns = map fst event_schema, rows = map event_row es\<rparr>
     [''user_id'', ''first_name'', ''last_name'', ''gender'', ''level'']
   = Inr \<lparr>columns = [''user_id'', ''first_name'', ''last_name'', ''gender'', ''level''],
          rows = map user_dim_row es\<rparr>"
  by (simp add: select_def selectExpr_def event_schema_def scope_of_def resolve_def
      project_def event_row_def user_dim_row_def)

lemma with_event_ts:
  "withColumn eng \<lparr>columns = map fst event_schema, rows = map event_row es\<rparr> ''event_ts''
     (CastTimestamp (Div (Col ''ts'') (Lit (VInt 1000))))
   = Inr \<lparr>columns = map fst event_schema @ [''event_ts''], rows = map (event_ts_row eng) es\<rparr>"
  by (simp add: withColumn_def event_schema_def scope_of_def resolve_def
      event_row_def event_ts_row_def event_ts_def)

lemma select_time:
  "selectExpr eng
     \<lparr>columns = map fst event_schema @ [''event_ts''], rows = map (event_ts_row eng) es\<rparr>
     [As (Col ''event_ts'') ''start_time'',
      As (Call ''hour'' (Col ''event_ts'')) ''hour'',
      As (Call ''day'' (Col ''event_ts'')) ''day'',
      As (Call ''weekofyear'' (Col ''event_ts'')) ''week'',
      As (Call ''month'' (Col ''event_ts'')) ''month'',
      As (Call ''year'' (Col ''event_ts'')) ''year'',
      As (Call ''dayofweek'' (Col ''event_ts'')) ''weekday'']
   = Inr \<lparr>columns = [''start_time'', ''hour'', ''day'', ''week'', ''month'', ''year'', ''weekday''],
          rows = map (time_dim_row eng) es\<rparr>"
  by (simp add: selectExpr_def event_schema_def scope_of_def resolve_def builtin_def
      project_def event_row_def event_ts_row_def time_dim_row_def)

subsection \<open>The three-way join\<close>

lemma cross_single: "cross [t] = t"
  by (induction t) simp_all

lemma cross_triple:
  "cross [X, Y, Z] =
   concat (map (\<lambda>x. map (\<lambda>rest. x @ rest) (concat (map (\<lambda>y. map (\<lambda>z. y @ z) Z) Y))) X)"
proof -
  have "cross [Y, Z] = concat (map (\<lambda>y. map (\<lambda>z. y @ z) (cross [Z])) Y)"
    by (rule cross.simps(2))
  then have yz: "cross [Y, Z] = concat (map (\<lambda>y. map (\<lambda>z. y @ z) Z) Y)"
    by (simp only: cross_single)
  have "cross [X, Y, Z] = concat (map (\<lambda>x. map (\<lambda>rest. x @ rest) (cross [Y, Z])) X)"
    by (rule cross.simps(2))
  with yz show ?thesis
    by (simp only:)
qed

lemma select_where_map:
  "map p (filter c (map k zs)) = concat (map (\<lambda>z. if c (k z) then [p (k z)] else []) zs)"
  by (induction zs) simp_all

lemma select_where_pairs:
  "map p (filter c (map (\<lambda>rest. r @ rest) (concat (map (\<lambda>y. map (\<lambda>z. g y @ h z) zs) ys)))) =
   concat (map (\<lambda>y. concat (map (\<lambda>z.
     if c (r @ g y @ h z) then [p (r @ g y @ h z)] else []) zs)) ys)"
proof (induction ys)
  case Nil
  show ?case by simp
next
  case (Cons y ys)
  have "map p (filter c (map (\<lambda>rest. r @ rest) (map (\<lambda>z. g y @ h z) zs))) =
        concat (map (\<lambda>z. if c (r @ g y @ h z) then [p (r @ g y @ h z)] else []) zs)"
    using select_where_map [of p c "\<lambda>z. r @ g y @ h z" zs] by (simp add: comp_def)
  with Cons show ?case by simp
qed

lemma select_where_cross:
  "map p (filter c (cross [map f xs, map g ys, map h zs])) =
   concat (map (\<lambda>x. concat (map (\<lambda>y. concat (map (\<lambda>z.
     if c (f x @ g y @ h z) then [p (f x @ g y @ h z)] else []) zs)) ys)) xs)"
proof -
  have "map p (filter c (concat (map (\<lambda>x. map (\<lambda>rest. f x @ rest)
          (concat (map (\<lambda>y. map (\<lambda>z. g y @ h z) zs) ys))) xs))) =
        concat (map (\<lambda>x. concat (map (\<lambda>y. concat (map (\<lambda>z.
          if c (f x @ g y @ h z) then [p (f x @ g y @ h z)] else []) zs)) ys)) xs)"
  proof (induction xs)
    case Nil
    show ?case by simp
  next
    case (Cons x xs)
    with select_where_pairs [of p c "f x" g h zs ys] show ?case by simp
  qed
  then show ?thesis
    by (simp only: cross_triple map_map comp_def)
qed

lemma songplays_sql:
  "sql eng
     [''song'' \<mapsto> \<lparr>columns = [''song_id'', ''title'', ''duration'', ''year'', ''artist_id''],
                  rows = map (song_readback eng) S\<rparr>,
      ''artist'' \<mapsto> \<lparr>columns = artists_columns, rows = map artist_readback A\<rparr>,
      ''events'' \<mapsto> \<lparr>columns = map fst event_schema @ [''event_ts''],
                    rows = map (event_ts_row eng) es\<rparr>]
     songplays_query
   = Inr \<lparr>columns = songplays_columns, rows = remdups (join_rows eng es S A)\<rparr>"
  apply (simp add: sql_def songplays_query_def event_schema_def artists_columns_def
      scope_of_def resolve_def builtin_def songplays_columns_def select_where_cross
      del: cross.simps)
  apply (simp add: project_def event_ts_row_def event_row_def song_readback_def
      artist_readback_def join_rows_def joins_def songplay_row_def artists_columns_def
      cong: if_cong)
  done

subsection \<open>Log pipeline\<close>

lemma read_songs:
  assumes "tables w path = Some t" and "st_columns t = songs_columns"
    and "st_partition t = [''year'', ''artist_id'']" and "st_rows t \<noteq> []"
  shows "read_parquet eng path w =
     (Inr \<lparr>columns = [''song_id'', ''title'', ''duration'', ''year'', ''artist_id''],
           rows = map (song_readback eng) (st_rows t)\<rparr>, w)"
  using assms
  by (simp add: read_parquet_def songs_columns_def song_readback_def Let_def)

lemma read_songs_empty:
  assumes "tables w path = Some t" and "st_partition t = [''year'', ''artist_id'']"
    and "st_rows t = []"
  shows "read_parquet eng path w = (Inl (UnableToInferSchema path), w)"
  using assms
  by (simp add: read_parquet_def)

lemma read_artists:
  assumes "tables w path = Some t" and "st_columns t = artists_columns"
    and "st_partition t = []"
  shows "read_parquet eng path w =
     (Inr \<lparr>columns = artists_columns, rows = map artist_readback (st_rows t)\<rparr>, w)"
  using assms
  by (simp add: read_parquet_def artists_columns_def artist_readback_def Let_def)

lemma process_log_data_missing:
  assumes "event_json w (inp @ ''log_data/*/*/*-events.json'') = None"
  shows "process_log_data eng inp out w =
     (Inl (PathNotFound (inp @ ''log_data/*/*/*-events.json'')), w)"
  using assms
  by (simp add: process_log_data_def and_then_def read_event_json_def)

lemma process_log_data_run:
  assumes ev: "event_json w (inp @ ''log_data/*/*/*-events.json'') = Some es"
    and sg: "tables w (out @ ''dimensions.parquet/songs'') = Some sg"
      "st_columns sg = songs_columns" "st_partition sg = [''year'', ''artist_id'']"
      "st_rows sg \<noteq> []"
    and ar: "tables w (out @ ''dimensions.parquet/artists'') = Some ar"
      "st_columns ar = artists_columns" "st_partition ar = []"
  shows "process_log_data eng inp out w =
     (Inr (), w\<lparr>tables := (tables w)
        (out @ ''dimensions.parquet/users'' \<mapsto> users_table es,
         out @ ''dimensions.parquet/time'' \<mapsto> time_table eng es,
         out @ ''facts.parquet/songplays'' \<mapsto> songplays_table eng sg ar es)\<rparr>)"
  using ev sg ar
  by (simp add: process_log_data_def and_then_def read_event_json_def lift_def
      filter_song_plays select_users with_event_ts select_time distinct_df_def
      write_parquet_def read_songs [where t = sg] read_artists [where t = ar]
      songplays_sql users_table_def time_table_def
      songplays_table_def songplays_columns_def)

lemma process_log_data_empty_songs:
  assumes ev: "event_json w (inp @ ''log_data/*/*/*-events.json'') = Some es"
    and sg: "tables w (out @ ''dimensions.parquet/songs'') = Some sg"
      "st_partition sg = [''year'', ''artist_id'']" "st_rows sg = []"
  shows "process_log_data eng inp out w =
     (Inl (UnableToInferSchema (out @ ''dimensions.parquet/songs'')),
      w\<lparr>tables := (tables w)
        (out @ ''dimensions.parquet/users'' \<mapsto> users_table es,
         out @ ''dimensions.parquet/time'' \<mapsto> time_table eng es)\<rparr>)"
  using ev sg
  by (simp add: process_log_data_def and_then_def read_event_json_def lift_def
      filter_song_plays select_users with_event_ts select_time distinct_df_def
      write_parquet_def read_songs_empty [where t = sg] users_table_def time_table_def)

subsection \<open>The driver\<close>

lemma main_no_songs:
  assumes "song_json w song_data_path = None"
  shows "main eng w = (Inl (PathNotFound song_data_path), w\<lparr>session_active := True\<rparr>)"
  using assms
    process_song_data_missing [of "w\<lparr>session_active := True\<rparr>" "''s3a://udacity-dend/''" eng
      "''s3n://data-lake-cluster/''"]
  by (simp add: main_def create_spark_session_def and_then_def song_data_path_def)

lemma main_no_events:
  assumes "song_json w song_data_path = Some ss" and "event_json w log_data_path = None"
  shows "main eng w =
     (Inl (PathNotFound log_data_path),
      w\<lparr>tables := (tables w)(songs_path \<mapsto> songs_table ss, artists_path \<mapsto> artists_table ss),
        session_active := True\<rparr>)"
  using assms
    process_song_data_run [of "w\<lparr>session_active := True\<rparr>" "''s3a://udacity-dend/''" ss eng
      "''s3n://data-lake-cluster/''"]
    process_log_data_missing [of
      "w\<lparr>session_active := True,
         tables := (tables w)(songs_path \<mapsto> songs_table ss, artists_path \<mapsto> artists_table ss)\<rparr>"
      "''s3a://udacity-dend/''" eng "''s3n://data-lake-cluster/''"]
  by (simp add: main_def create_spark_session_def and_then_def song_data_path_def
      log_data_path_def songs_path_def artists_path_def)

lemma main_empty_songs:
  assumes "song_json w song_data_path = Some []" and "event_json w log_data_path = Some es"
  shows "main eng w =
     (Inl (UnableToInferSchema songs_path),
      w\<lparr>tables := (tables w)
          (songs_path \<mapsto> songs_table [],
           artists_path \<mapsto> artists_table [],
           users_path \<mapsto> users_table es,
           time_path \<mapsto> time_table eng es),
        session_active := True\<rparr>)"
  using assms
    process_song_data_run [of "w\<lparr>session_active := True\<rparr>" "''s3a://udacity-dend/''" "[]" eng
      "''s3n://data-lake-cluster/''"]
    process_log_data_empty_songs [of
      "w\<lparr>session_active := True,
         tables := (tables w)(songs_path \<mapsto> songs_table [], artists_path \<mapsto> artists_table [])\<rparr>"
      "''s3a://udacity-dend/''" es "''s3n://data-lake-cluster/''" "songs_table []" eng]
  by (simp add: main_def create_spark_session_def and_then_def
      song_data_path_def log_data_path_def songs_path_def artists_path_def users_path_def
      time_path_def songs_table_def)

lemma main_run:
  assumes "song_json w song_data_path = Some ss" and "event_json w log_data_path = Some es"
    and "ss \<noteq> []"
  shows "main eng w =
     (Inr (),
      w\<lparr>tables := (tables w)
          (songs_path \<mapsto> songs_table ss,
           artists_path \<mapsto> artists_table ss,
           users_path \<mapsto> users_table es,
           time_path \<mapsto> time_table eng es,
           songplays_path \<mapsto> songplays_table eng (songs_table ss) (artists_table ss) es),
        session_active := False,
        stop_calls := Suc (stop_calls w)\<rparr>)"
  using assms
    process_song_data_run [of "w\<lparr>session_active := True\<rparr>" "''s3a://udacity-dend/''" ss eng
      "''s3n://data-lake-cluster/''"]
    process_log_data_run [of
      "w\<lparr>session_active := True,
         tables := (tables w)(songs_path \<mapsto> songs_table ss, artists_path \<mapsto> artists_table ss)\<rparr>"
      "''s3a://udacity-dend/''" es "''s3n://data-lake-cluster/''"
      "songs_table ss" "artists_table ss" eng]
  by (simp add: main_def create_spark_session_def and_then_def spark_stop_def
      song_data_path_def log_data_path_def songs_path_def artists_path_def users_path_def
      time_path_def songplays_path_def songs_table_def artists_table_def)

section \<open>Properties of the script\<close>

subsection \<open>Helpers on tables after a run\<close>

lemma main_outcome:
  obtains
    (no_songs) "song_json w song_data_path = None"
      "main eng w = (Inl (PathNotFound song_data_path), w\<lparr>session_active := True\<rparr>)"
  | (no_events) ss where "song_json w song_data_path = Some ss"
      "event_json w log_data_path = None"
      "main eng w =
         (Inl (PathNotFound log_data_path),
          w\<lparr>tables := (tables w)
              (songs_path \<mapsto> songs_table ss, artists_path \<mapsto> artists_table ss),
            session_active := True\<rparr>)"
  | (empty_songs) es where "song_json w song_data_path = Some []"
      "event_json w log_data_path = Some es"
      "main eng w =
         (Inl (UnableToInferSchema songs_path),
          w\<lparr>tables := (tables w)
              (songs_path \<mapsto> songs_table [],
               artists_path \<mapsto> artists_table [],
               users_path \<mapsto> users_table es,
               time_path \<mapsto> time_table eng es),
            session_active := True\<rparr>)"
  | (run) ss es where "song_json w song_data_path = Some ss"
      "event_json w log_data_path = Some es" "ss \<noteq> []"
      "main eng w =
         (Inr (),
          w\<lparr>tables := (tables w)
              (songs_path \<mapsto> songs_table ss,
               artists_path \<mapsto> artists_table ss,
               users_path \<mapsto> users_table es,
               time_path \<mapsto> time_table eng es,
               songplays_path \<mapsto> songplays_table eng (songs_table ss) (artists_table ss) es),
            session_active := False,
            stop_calls := Suc (stop_calls w)\<rparr>)"
proof (cases "song_json w song_data_path")
  case None
  with no_songs main_no_songs show ?thesis by blast
next
  case ss: (Some ss)
  show ?thesis
  proof (cases "event_json w log_data_path")
    case None
    with ss no_events main_no_events show ?thesis by blast
  next
    case es: (Some es)
    show ?thesis
    proof (cases "ss = []")
      case True
      with ss es empty_songs main_empty_songs show ?thesis by blast
    next
      case False
      with ss es run main_run show ?thesis by blast
    qed
  qed
qed

lemma tables_after_run:
  assumes "song_json w song_data_path = Some ss" and "event_json w log_data_path = Some es"
  shows "tables (snd (main eng w)) songs_path = Some (songs_table ss)"
    and "tables (snd (main eng w)) artists_path = Some (artists_table ss)"
    and "tables (snd (main eng w)) users_path = Some (users_table es)"
    and "tables (snd (main eng w)) time_path = Some (time_table eng es)"
proof -
  have "tables (snd (main eng w)) songs_path = Some (songs_table ss) \<and>
        tables (snd (main eng w)) artists_path = Some (artists_table ss) \<and>
        tables (snd (main eng w)) users_path = Some (users_table es) \<and>
        tables (snd (main eng w)) time_path = Some (time_table eng es)"
  proof (cases "ss = []")
    case True
    with assms show ?thesis
      by (simp add: main_empty_songs songs_path_def artists_path_def users_path_def
          time_path_def)
  next
    case False
    with assms show ?thesis
      by (simp add: main_run songs_path_def artists_path_def users_path_def
          time_path_def songplays_path_def)
  qed
  then show "tables (snd (main eng w)) songs_path = Some (songs_table ss)"
    and "tables (snd (main eng w)) artists_path = Some (artists_table ss)"
    and "tables (snd (main eng w)) users_path = Some (users_table es)"
    and "tables (snd (main eng w)) time_path = Some (time_table eng es)"
    by simp_all
qed

lemma songplays_after_run:
  assumes "song_json w song_data_path = Some ss" and "event_json w log_data_path = Some es"
    and "ss \<noteq> []"
  shows "tables (snd (main eng w)) songplays_path =
           Some (songplays_table eng (songs_table ss) (artists_table ss) es)"
  by (simp add: main_run [OF assms] songplays_path_def)

lemma songplays_untouched:
  assumes "song_json w song_data_path = Some []" and "event_json w log_data_path = Some es"
  shows "tables (snd (main eng w)) songplays_path = tables w songplays_path"
  by (simp add: main_empty_songs [OF assms] songs_path_def artists_path_def users_path_def
      time_path_def songplays_path_def)

lemma main_inputs_unchanged:
  "song_json (snd (main eng w)) = song_json w \<and> event_json (snd (main eng w)) = event_json w"
  by (cases rule: main_outcome [of w eng]) simp_all

lemma main_succeeds_iff:
  "fst (main eng w) = Inr () \<longleftrightarrow>
   (\<exists>ss. song_json w song_data_path = Some ss \<and> ss \<noteq> []) \<and>
   event_json w log_data_path \<noteq> None"
  by (cases rule: main_outcome [of w eng]) simp_all

lemma sample_inputs:
  "song_json sample_world song_data_path = Some [hello_adele, hello_lionel, untitled]"
  "event_json sample_world log_data_path = Some [play_hello, page_view, play_unnamed]"
  by (simp_all add: sample_world_def)

lemma sample_nonempty: "[hello_adele, hello_lionel, untitled] \<noteq> []"
  by simp

lemma sample_song_plays:
  "is_song_play play_hello" "\<not> is_song_play page_view" "is_song_play play_unnamed"
  by (simp_all add: is_song_play_def play_hello_def page_view_def play_unnamed_def)

text \<open>
  C1, as the code has it. The driver stops the session once when both pipelines return.
  When a pipeline raises, the error leaves the driver before \<open>spark.stop()\<close> is reached:
  the session stays active and no stop is issued.
\<close>

theorem main_stops_session_only_on_success:
  "stop_calls (snd (main eng w)) =
     (case fst (main eng w) of Inl e \<Rightarrow> stop_calls w | Inr u \<Rightarrow> Suc (stop_calls w)) \<and>
   session_active (snd (main eng w)) =
     (case fst (main eng w) of Inl e \<Rightarrow> True | Inr u \<Rightarrow> False)"
  by (cases rule: main_outcome [of w eng]) simp_all

theorem main_stops_session_only_on_success_witness:
  "fst (main utc_engine sample_world) = Inr () \<and>
   stop_calls (snd (main utc_engine sample_world)) = 1 \<and>
   \<not> session_active (snd (main utc_engine sample_world))"
proof -
  have run: "fst (main utc_engine sample_world) = Inr ()"
    by (simp add: main_run [OF sample_inputs])
  have none: "stop_calls sample_world = 0"
    by (simp add: sample_world_def)
  from main_stops_session_only_on_success [of utc_engine sample_world] run none
  show ?thesis by simp
qed

text \<open>
  C1, as the specification states it, fails: with no event file under the log pattern the
  log pipeline raises, and the driver ends with the session still active and never
  stopped.
\<close>

theorem main_error_leaves_session_open:
  "fst (main utc_engine no_log_world) = Inl (PathNotFound log_data_path) \<and>
   stop_calls (snd (main utc_engine no_log_world)) = 0 \<and>
   session_active (snd (main utc_engine no_log_world))"
proof -
  have "song_json no_log_world song_data_path = Some [hello_adele, hello_lionel, untitled]"
    and "event_json no_log_world log_data_path = None"
    by (simp_all add: no_log_world_def sample_world_def)
  then show ?thesis
    by (simp add: main_no_events no_log_world_def sample_world_def)
qed

text \<open>
  C8. Running the driver a second time on the storage the first run left gives the same
  outcome and the same tables: every table is overwritten from the unchanged inputs.
\<close>

theorem main_twice_same_tables:
  "tables (snd (main eng (snd (main eng w)))) = tables (snd (main eng w)) \<and>
   fst (main eng (snd (main eng w))) = fst (main eng w)"
proof (cases rule: main_outcome [of w eng])
  case no_songs
  then have "song_json (snd (main eng w)) song_data_path = None"
    by simp
  from main_no_songs [OF this, of eng] no_songs(2) show ?thesis
    by simp
next
  case (no_events ss)
  then have "song_json (snd (main eng w)) song_data_path = Some ss"
    and "event_json (snd (main eng w)) log_data_path = None"
    by simp_all
  from main_no_events [OF this, of eng] no_events(3) show ?thesis
    by simp
next
  case (empty_songs es)
  then have "song_json (snd (main eng w)) song_data_path = Some []"
    and "event_json (snd (main eng w)) log_data_path = Some es"
    by simp_all
  from main_empty_songs [OF this, of eng] empty_songs(3) show ?thesis
    by simp
next
  case (run ss es)
  then have "song_json (snd (main eng w)) song_data_path = Some ss"
    and "event_json (snd (main eng w)) log_data_path = Some es"
    by simp_all
  from main_run [OF this run(3), of eng] run(4) show ?thesis
    by simp
qed

theorem main_twice_same_tables_witness:
  "table_rows (snd (main utc_engine (snd (main utc_engine sample_world)))) songs_path =
     [song_dim_row hello_adele, song_dim_row hello_lionel, song_dim_row untitled] \<and>
   table_rows (snd (main utc_engine sample_world)) songs_path =
     [song_dim_row hello_adele, song_dim_row hello_lionel, song_dim_row untitled]"
proof -
  have "table_rows (snd (main utc_engine sample_world)) songs_path =
     [song_dim_row hello_adele, song_dim_row hello_lionel, song_dim_row untitled]"
    by (simp add: table_rows_def tables_after_run [OF sample_inputs] songs_table_def
        song_dim_row_def hello_adele_def hello_lionel_def untitled_def vstr_def)
  with main_twice_same_tables [of utc_engine sample_world] show ?thesis
    by (simp add: table_rows_def)
qed

subsection \<open>Rows of the join\<close>

lemma joins_iff:
  "joins e s a \<longleftrightarrow>
     (\<exists>t. song e = Some t \<and> field songs_columns s ''title'' = VStr t) \<and>
     (\<exists>n. artist e = Some n \<and> field artists_columns a ''name'' = VStr n)"
  by (cases "song e"; cases "artist e")
     (auto simp: joins_def sql_and_def sql_eq_def vstr_def)

lemma set_join_rows:
  "set (join_rows eng es S A) =
     {songplay_row eng e s a | e s a. e \<in> set es \<and> s \<in> set S \<and> a \<in> set A \<and> joins e s a}"
  by (auto simp: join_rows_def)

lemma count_list_distinct:
  "distinct xs \<Longrightarrow> x \<in> set xs \<Longrightarrow> count_list xs x = 1"
  by (induction xs) (auto simp: count_list_0_iff)

lemma songplays_rows_after_run:
  assumes "song_json w song_data_path = Some ss" and "event_json w log_data_path = Some es"
    and "ss \<noteq> []"
  shows "table_rows (snd (main eng w)) songplays_path =
     remdups (join_rows eng (filter is_song_play es)
        (table_rows (snd (main eng w)) songs_path)
        (table_rows (snd (main eng w)) artists_path))"
  by (simp add: table_rows_def tables_after_run [OF assms(1,2)] songplays_after_run [OF assms]
      songplays_table_def)

lemma song_dim_row_fields:
  "field songs_columns (song_dim_row s) ''title'' = vstr (title s)"
  "field songs_columns (song_dim_row s) ''song_id'' = vstr (song_id s)"
  by (simp_all add: songs_columns_def song_dim_row_def)

lemma artist_dim_row_fields:
  "field artists_columns (artist_dim_row s) ''name'' = vstr (artist_name s)"
  "field artists_columns (artist_dim_row s) ''artist_id'' = vstr (artist_id s)"
  by (simp_all add: artists_columns_def artist_dim_row_def)

text \<open>
  C6. After a run on existing inputs each dimension table holds every projected tuple
  of its source records, and holds it once.
\<close>

theorem dimension_tables_have_no_duplicates:
  assumes "song_json w song_data_path = Some ss" and "event_json w log_data_path = Some es"
  shows "distinct (table_rows (snd (main eng w)) songs_path) \<and>
         set (table_rows (snd (main eng w)) songs_path) = song_dim_row ` set ss \<and>
         distinct (table_rows (snd (main eng w)) artists_path) \<and>
         set (table_rows (snd (main eng w)) artists_path) = artist_dim_row ` set ss \<and>
         distinct (table_rows (snd (main eng w)) users_path) \<and>
         set (table_rows (snd (main eng w)) users_path) =
           user_dim_row ` {e \<in> set es. is_song_play e} \<and>
         distinct (table_rows (snd (main eng w)) time_path) \<and>
         set (table_rows (snd (main eng w)) time_path) =
           time_dim_row eng ` {e \<in> set es. is_song_play e}"
  by (simp add: table_rows_def tables_after_run [OF assms] songs_table_def artists_table_def
      users_table_def time_table_def)

theorem dimension_tables_have_no_duplicates_witness:
  "song_json replay_world song_data_path = Some [hello_adele, hello_lionel, untitled] \<and>
   event_json replay_world log_data_path = Some [play_hello, play_hello_again] \<and>
   user_dim_row play_hello = user_dim_row play_hello_again \<and>
   distinct (table_rows (snd (main utc_engine replay_world)) users_path) \<and>
   set (table_rows (snd (main utc_engine replay_world)) users_path) = {user_dim_row play_hello}"
proof -
  have s: "song_json replay_world song_data_path = Some [hello_adele, hello_lionel, untitled]"
    and e: "event_json replay_world log_data_path = Some [play_hello, play_hello_again]"
    by (simp_all add: replay_world_def sample_world_def)
  have same: "user_dim_row play_hello = user_dim_row play_hello_again"
    by (simp add: user_dim_row_def play_hello_again_def)
  have plays: "is_song_play play_hello" "is_song_play play_hello_again"
    by (simp_all add: is_song_play_def play_hello_again_def play_hello_def)
  then have "{e \<in> set [play_hello, play_hello_again]. is_song_play e} =
      {play_hello, play_hello_again}"
    by auto
  with dimension_tables_have_no_duplicates [OF s e, of utc_engine] s e same
  show ?thesis by simp
qed

text \<open>
  C4. Every songplays row is the row built from a song-play event, a row of the songs
  table whose title is the event's song and a row of the artists table whose name is
  the event's artist; and the row built from any such triple is in the table exactly
  once. Equality is that of the query: both sides are strings, not null. The cells of
  the two dimension rows are read under the columns the tables are stored with. The
  catalog input holds at least one record: with none the songs table is written without
  a file, reading it back raises, and no songplays table is written.
\<close>

theorem songplays_are_the_matching_triples:
  assumes "song_json w song_data_path = Some ss" and "event_json w log_data_path = Some es"
    and "ss \<noteq> []"
  shows "fst (main eng w) = Inr () \<and>
         table_columns (snd (main eng w)) songs_path = songs_columns \<and>
         table_columns (snd (main eng w)) artists_path = artists_columns \<and>
         table_columns (snd (main eng w)) songplays_path = songplays_columns \<and>
         (\<forall>r \<in> set (table_rows (snd (main eng w)) songplays_path).
            \<exists>e s a t n.
              e \<in> set es \<and> page e = Some ''NextSong'' \<and> status e = Some 200 \<and>
              s \<in> set (table_rows (snd (main eng w)) songs_path) \<and>
              a \<in> set (table_rows (snd (main eng w)) artists_path) \<and>
              song e = Some t \<and> field songs_columns s ''title'' = VStr t \<and>
              artist e = Some n \<and> field artists_columns a ''name'' = VStr n \<and>
              r = songplay_row eng e s a) \<and>
         (\<forall>e s a t n.
            e \<in> set es \<and> page e = Some ''NextSong'' \<and> status e = Some 200 \<and>
            s \<in> set (table_rows (snd (main eng w)) songs_path) \<and>
            a \<in> set (table_rows (snd (main eng w)) artists_path) \<and>
            song e = Some t \<and> field songs_columns s ''title'' = VStr t \<and>
            artist e = Some n \<and> field artists_columns a ''name'' = VStr n \<longrightarrow>
            count_list (table_rows (snd (main eng w)) songplays_path)
              (songplay_row eng e s a) = 1)"
proof -
  let ?S = "table_rows (snd (main eng w)) songs_path"
  let ?A = "table_rows (snd (main eng w)) artists_path"
  let ?F = "table_rows (snd (main eng w)) songplays_path"
  have rows: "?F = remdups (join_rows eng (filter is_song_play es) ?S ?A)"
    by (rule songplays_rows_after_run [OF assms])
  have sound: "\<exists>e s a t n.
      e \<in> set es \<and> page e = Some ''NextSong'' \<and> status e = Some 200 \<and> s \<in> set ?S \<and>
      a \<in> set ?A \<and> song e = Some t \<and> field songs_columns s ''title'' = VStr t \<and>
      artist e = Some n \<and> field artists_columns a ''name'' = VStr n \<and>
      r = songplay_row eng e s a" if "r \<in> set ?F" for r
  proof -
    from that rows obtain e s a where
      "e \<in> set es" "is_song_play e" "s \<in> set ?S" "a \<in> set ?A" "joins e s a"
      "r = songplay_row eng e s a"
      by (auto simp: set_join_rows)
    then show ?thesis
      unfolding joins_iff is_song_play_def by blast
  qed
  have complete: "count_list ?F (songplay_row eng e s a) = 1"
    if "e \<in> set es" "page e = Some ''NextSong''" "status e = Some 200" "s \<in> set ?S"
      "a \<in> set ?A" "song e = Some t" "field songs_columns s ''title'' = VStr t"
      "artist e = Some n" "field artists_columns a ''name'' = VStr n" for e s a t n
  proof -
    from that have "joins e s a" "is_song_play e"
      by (simp_all add: joins_iff is_song_play_def)
    with that have "songplay_row eng e s a \<in> set (join_rows eng (filter is_song_play es) ?S ?A)"
      unfolding set_join_rows by auto
    then have "songplay_row eng e s a \<in> set ?F"
      by (simp only: rows set_remdups)
    moreover have "distinct ?F"
      by (simp only: rows distinct_remdups)
    ultimately show ?thesis
      by (rule count_list_distinct [rotated])
  qed
  have cols: "table_columns (snd (main eng w)) songs_path = songs_columns"
    "table_columns (snd (main eng w)) artists_path = artists_columns"
    "table_columns (snd (main eng w)) songplays_path = songplays_columns"
    by (simp_all add: table_columns_def tables_after_run [OF assms(1,2)]
        songplays_after_run [OF assms] songs_table_def artists_table_def songplays_table_def)
  have ok: "fst (main eng w) = Inr ()"
    by (simp add: main_run [OF assms])
  from ok cols sound complete show ?thesis by blast
qed

lemma sample_dimension_rows:
  "song_dim_row hello_adele \<in> set (table_rows (snd (main utc_engine sample_world)) songs_path)"
  "song_dim_row hello_lionel \<in> set (table_rows (snd (main utc_engine sample_world)) songs_path)"
  "artist_dim_row hello_adele \<in>
     set (table_rows (snd (main utc_engine sample_world)) artists_path)"
  by (simp_all add: table_rows_def tables_after_run [OF sample_inputs] songs_table_def
      artists_table_def)

lemma sample_fields:
  "page play_hello = Some ''NextSong''" "status play_hello = Some 200"
  "song play_hello = Some ''Hello''" "artist play_hello = Some ''Adele''"
  "title hello_adele = Some ''Hello''" "title hello_lionel = Some ''Hello''"
  "artist_name hello_adele = Some ''Adele''"
  by (simp_all add: play_hello_def hello_adele_def hello_lionel_def)

theorem songplays_are_the_matching_triples_witness:
  "song_json sample_world song_data_path = Some [hello_adele, hello_lionel, untitled] \<and>
   event_json sample_world log_data_path = Some [play_hello, page_view, play_unnamed] \<and>
   [hello_adele, hello_lionel, untitled] \<noteq> [] \<and>
   fst (main utc_engine sample_world) = Inr () \<and>
   count_list (table_rows (snd (main utc_engine sample_world)) songplays_path)
     (songplay_row utc_engine play_hello (song_dim_row hello_adele) (artist_dim_row hello_adele))
     = 1"
proof -
  have "play_hello \<in> set [play_hello, page_view, play_unnamed]"
    by simp
  moreover have "field songs_columns (song_dim_row hello_adele) ''title'' = VStr ''Hello''"
    "field artists_columns (artist_dim_row hello_adele) ''name'' = VStr ''Adele''"
    by (simp_all add: song_dim_row_fields artist_dim_row_fields sample_fields vstr_def)
  ultimately have
    "fst (main utc_engine sample_world) = Inr () \<and>
     count_list (table_rows (snd (main utc_engine sample_world)) songplays_path)
       (songplay_row utc_engine play_hello (song_dim_row hello_adele)
          (artist_dim_row hello_adele)) = 1"
    using songplays_are_the_matching_triples [OF sample_inputs sample_nonempty, of utc_engine]
      sample_dimension_rows sample_fields
    by blast
  with sample_inputs show ?thesis by simp
qed

text \<open>
  C9. The join compares the event with the songs table by title and with the artists
  table by name, and nothing relates the two catalog rows to each other: for a song-play
  event, any catalog record with the event's song as title and any catalog record with
  the event's artist as name give a fact row with the song id of the first and the
  artist id of the second.
\<close>

theorem join_pairs_unrelated_catalog_rows:
  assumes "song_json w song_data_path = Some ss" and "event_json w log_data_path = Some es"
    and "e \<in> set es" and "page e = Some ''NextSong''" and "status e = Some 200"
    and "s \<in> set ss" and "a \<in> set ss"
    and "song e = Some t" and "title s = Some t"
    and "artist e = Some n" and "artist_name a = Some n"
  shows "songplay_row eng e (song_dim_row s) (artist_dim_row a)
           \<in> set (table_rows (snd (main eng w)) songplays_path) \<and>
         field songplays_columns (songplay_row eng e (song_dim_row s) (artist_dim_row a))
           ''song_id'' = vstr (song_id s) \<and>
         field songplays_columns (songplay_row eng e (song_dim_row s) (artist_dim_row a))
           ''artist_id'' = vstr (artist_id a)"
proof -
  have "joins e (song_dim_row s) (artist_dim_row a)"
    using assms by (simp add: joins_iff song_dim_row_fields artist_dim_row_fields vstr_def)
  moreover have "is_song_play e"
    using assms by (simp add: is_song_play_def)
  moreover have "song_dim_row s \<in> set (st_rows (songs_table ss))"
    "artist_dim_row a \<in> set (st_rows (artists_table ss))"
    using assms by (simp_all add: songs_table_def artists_table_def)
  moreover from \<open>s \<in> set ss\<close> have "ss \<noteq> []"
    by auto
  ultimately have "songplay_row eng e (song_dim_row s) (artist_dim_row a)
      \<in> set (table_rows (snd (main eng w)) songplays_path)"
    using assms(3)
    by (auto simp: table_rows_def songplays_after_run [OF assms(1,2)] songplays_table_def
        set_join_rows)
  then show ?thesis
    by (simp add: songplays_columns_def songplay_row_def song_dim_row_fields
        artist_dim_row_fields)
qed

theorem join_pairs_unrelated_catalog_rows_witness:
  "artist_id hello_lionel \<noteq> artist_id hello_adele \<and>
   songplay_row utc_engine play_hello (song_dim_row hello_lionel) (artist_dim_row hello_adele)
     \<in> set (table_rows (snd (main utc_engine sample_world)) songplays_path) \<and>
   songplay_row utc_engine play_hello (song_dim_row hello_adele) (artist_dim_row hello_adele)
     \<in> set (table_rows (snd (main utc_engine sample_world)) songplays_path) \<and>
   field songplays_columns
     (songplay_row utc_engine play_hello (song_dim_row hello_lionel) (artist_dim_row hello_adele))
     ''song_id'' = VStr ''S2'' \<and>
   field songplays_columns
     (songplay_row utc_engine play_hello (song_dim_row hello_lionel) (artist_dim_row hello_adele))
     ''artist_id'' = VStr ''A1''"
proof -
  have mem: "play_hello \<in> set [play_hello, page_view, play_unnamed]"
    "hello_lionel \<in> set [hello_adele, hello_lionel, untitled]"
    "hello_adele \<in> set [hello_adele, hello_lionel, untitled]"
    by simp_all
  have ids: "artist_id hello_lionel \<noteq> artist_id hello_adele"
    "vstr (song_id hello_lionel) = VStr ''S2''" "vstr (artist_id hello_adele) = VStr ''A1''"
    by (simp_all add: hello_lionel_def hello_adele_def vstr_def)
  from join_pairs_unrelated_catalog_rows [OF sample_inputs mem(1) sample_fields(1,2) mem(2,3)
      sample_fields(3,6,4,7), of utc_engine]
    join_pairs_unrelated_catalog_rows [OF sample_inputs mem(1) sample_fields(1,2) mem(3,3)
      sample_fields(3,5,4,7), of utc_engine]
    ids
  show ?thesis by simp
qed

lemma concat_map_filter_empty:
  "(\<And>x. \<not> P x \<Longrightarrow> f x = []) \<Longrightarrow> concat (map f (filter P xs)) = concat (map f xs)"
  by (induction xs) simp_all

lemma join_rows_named_only:
  "join_rows eng (filter (\<lambda>e. song e \<noteq> None \<and> artist e \<noteq> None) es) S A = join_rows eng es S A"
proof -
  have "concat (map (\<lambda>s. concat (map (\<lambda>a.
          if joins e s a then [songplay_row eng e s a] else []) A)) S) = []"
    if "\<not> (song e \<noteq> None \<and> artist e \<noteq> None)" for e
  proof -
    from that have "\<not> joins e s a" for s a
      by (auto simp: joins_iff)
    then show ?thesis by simp
  qed
  then show ?thesis
    unfolding join_rows_def by (rule concat_map_filter_empty)
qed

text \<open>
  C10. An event without song or without artist gives no fact row, whatever the catalog
  holds: dropping these events from the input leaves the songplays table as it is, and
  when no event names both, the table the run writes is empty. On an empty catalog input
  the run writes no songplays table at all and leaves the path as it found it.
\<close>

theorem null_song_or_artist_gives_no_songplay:
  assumes "song_json w song_data_path = Some ss" and "event_json w log_data_path = Some es"
  shows "table_rows
           (snd (main eng (w\<lparr>event_json := (event_json w)
              (log_data_path \<mapsto> filter (\<lambda>e. song e \<noteq> None \<and> artist e \<noteq> None) es)\<rparr>)))
           songplays_path
         = table_rows (snd (main eng w)) songplays_path \<and>
         (ss \<noteq> [] \<and> (\<forall>e \<in> set es. song e = None \<or> artist e = None) \<longrightarrow>
            fst (main eng w) = Inr () \<and>
            table_rows (snd (main eng w)) songplays_path = []) \<and>
         (ss = [] \<longrightarrow>
            tables (snd (main eng w)) songplays_path = tables w songplays_path)"
proof -
  let ?named = "\<lambda>e. song e \<noteq> None \<and> artist e \<noteq> None"
  let ?w = "w\<lparr>event_json := (event_json w)(log_data_path \<mapsto> filter ?named es)\<rparr>"
  have s: "song_json ?w song_data_path = Some ss"
    and e: "event_json ?w log_data_path = Some (filter ?named es)"
    using assms by simp_all
  have swap: "filter is_song_play (filter ?named es) = filter ?named (filter is_song_play es)"
    by (simp add: conj_commute)
  have same: "table_rows (snd (main eng ?w)) songplays_path =
      table_rows (snd (main eng w)) songplays_path"
  proof (cases "ss = []")
    case True
    with s e have "tables (snd (main eng ?w)) songplays_path = tables ?w songplays_path"
      by (simp only: songplays_untouched)
    moreover from True assms
    have "tables (snd (main eng w)) songplays_path = tables w songplays_path"
      by (simp only: songplays_untouched)
    ultimately show ?thesis
      by (simp add: table_rows_def)
  next
    case False
    show ?thesis
      by (simp only: table_rows_def songplays_after_run [OF s e False]
          songplays_after_run [OF assms False] songplays_table_def swap join_rows_named_only
          option.case stored.simps)
  qed
  have none: "fst (main eng w) = Inr () \<and> table_rows (snd (main eng w)) songplays_path = []"
    if "ss \<noteq> []" "\<forall>e \<in> set es. song e = None \<or> artist e = None"
  proof -
    from that(2) have "filter ?named (filter is_song_play es) = []"
      by (auto simp: filter_empty_conv)
    with join_rows_named_only [of eng "filter is_song_play es"
        "st_rows (songs_table ss)" "st_rows (artists_table ss)"]
    have "join_rows eng (filter is_song_play es)
        (st_rows (songs_table ss)) (st_rows (artists_table ss)) = []"
      by (simp only: join_rows_def list.map concat.simps)
    then show ?thesis
      by (simp add: table_rows_def songplays_after_run [OF assms that(1)] songplays_table_def
          main_run [OF assms that(1)])
  qed
  have untouched: "tables (snd (main eng w)) songplays_path = tables w songplays_path"
    if "ss = []"
    using that assms by (simp only: songplays_untouched)
  from same none untouched show ?thesis by blast
qed

theorem null_song_or_artist_gives_no_songplay_witness:
  "song_json unnamed_world song_data_path = Some [hello_adele, hello_lionel, untitled] \<and>
   event_json unnamed_world log_data_path = Some [play_unnamed, page_view] \<and>
   is_song_play play_unnamed \<and> song play_unnamed = None \<and> title untitled = None \<and>
   artist play_unnamed = None \<and> artist_name untitled = None \<and>
   table_rows (snd (main utc_engine unnamed_world)) songplays_path = []"
proof -
  have s: "song_json unnamed_world song_data_path = Some [hello_adele, hello_lionel, untitled]"
    and e: "event_json unnamed_world log_data_path = Some [play_unnamed, page_view]"
    by (simp_all add: unnamed_world_def sample_world_def)
  have nulls: "song play_unnamed = None" "artist play_unnamed = None" "song page_view = None"
    "title untitled = None" "artist_name untitled = None"
    by (simp_all add: play_unnamed_def page_view_def untitled_def)
  then have "\<forall>e \<in> set [play_unnamed, page_view]. song e = None \<or> artist e = None"
    by simp
  with null_song_or_artist_gives_no_songplay [OF s e, of utc_engine] sample_nonempty
  have "table_rows (snd (main utc_engine unnamed_world)) songplays_path = []"
    by blast
  with s e nulls sample_song_plays show ?thesis by simp
qed

lemma is_song_play_eq:
  "(\<lambda>e. page e = Some ''NextSong'' \<and> status e = Some 200) = is_song_play"
  by (simp add: is_song_play_def fun_eq_iff)

text \<open>
  C5. The users, time and songplays tables come from the events with page NextSong and
  status 200 alone: every row the run writes to them is built from such an event, and a
  run on the input without the other events leaves the same tables. On an empty catalog
  input the run writes no songplays table and leaves the path as it found it.
\<close>

theorem only_song_plays_reach_the_tables:
  assumes "song_json w song_data_path = Some ss" and "event_json w log_data_path = Some es"
  shows "tables (snd (main eng (w\<lparr>event_json := (event_json w)
              (log_data_path \<mapsto>
                 filter (\<lambda>e. page e = Some ''NextSong'' \<and> status e = Some 200) es)\<rparr>)))
         = tables (snd (main eng w)) \<and>
         (\<forall>r \<in> set (table_rows (snd (main eng w)) users_path).
            \<exists>e \<in> set es. page e = Some ''NextSong'' \<and> status e = Some 200 \<and>
              r = user_dim_row e) \<and>
         (\<forall>r \<in> set (table_rows (snd (main eng w)) time_path).
            \<exists>e \<in> set es. page e = Some ''NextSong'' \<and> status e = Some 200 \<and>
              r = time_dim_row eng e) \<and>
         (ss \<noteq> [] \<longrightarrow>
            (\<forall>r \<in> set (table_rows (snd (main eng w)) songplays_path).
               \<exists>e \<in> set es. page e = Some ''NextSong'' \<and> status e = Some 200 \<and>
                 (\<exists>s a. r = songplay_row eng e s a))) \<and>
         (ss = [] \<longrightarrow>
            tables (snd (main eng w)) songplays_path = tables w songplays_path)"
proof -
  let ?w = "w\<lparr>event_json := (event_json w)(log_data_path \<mapsto> filter is_song_play es)\<rparr>"
  have s: "song_json ?w song_data_path = Some ss"
    and e: "event_json ?w log_data_path = Some (filter is_song_play es)"
    using assms by simp_all
  have "tables (snd (main eng ?w)) = tables (snd (main eng w))"
  proof (cases "ss = []")
    case True
    with s e assms show ?thesis
      by (simp add: main_empty_songs users_table_def time_table_def)
  next
    case False
    show ?thesis
      by (simp add: main_run [OF s e False] main_run [OF assms False] users_table_def
          time_table_def songplays_table_def)
  qed
  moreover have "\<exists>e \<in> set es. is_song_play e \<and> r = user_dim_row e"
    if "r \<in> set (table_rows (snd (main eng w)) users_path)" for r
    using that
    by (auto simp: table_rows_def tables_after_run [OF assms] users_table_def)
  moreover have "\<exists>e \<in> set es. is_song_play e \<and> r = time_dim_row eng e"
    if "r \<in> set (table_rows (snd (main eng w)) time_path)" for r
    using that
    by (auto simp: table_rows_def tables_after_run [OF assms] time_table_def)
  moreover have "\<exists>e \<in> set es. is_song_play e \<and> (\<exists>s a. r = songplay_row eng e s a)"
    if "ss \<noteq> []" "r \<in> set (table_rows (snd (main eng w)) songplays_path)" for r
    using that(2)
    by (auto simp: table_rows_def songplays_after_run [OF assms that(1)] songplays_table_def
        set_join_rows)
  moreover have "tables (snd (main eng w)) songplays_path = tables w songplays_path"
    if "ss = []"
    using that assms by (simp only: songplays_untouched)
  ultimately show ?thesis
    unfolding is_song_play_eq by (simp add: is_song_play_def)
qed

theorem only_song_plays_reach_the_tables_witness:
  "song_json sample_world song_data_path = Some [hello_adele, hello_lionel, untitled] \<and>
   event_json sample_world log_data_path = Some [play_hello, page_view, play_unnamed] \<and>
   page page_view = Some ''PageView'' \<and>
   tables (snd (main utc_engine (sample_world\<lparr>event_json := (event_json sample_world)
       (log_data_path \<mapsto> [play_hello, play_unnamed])\<rparr>)))
     = tables (snd (main utc_engine sample_world)) \<and>
   user_dim_row page_view \<notin> set (table_rows (snd (main utc_engine sample_world)) users_path)"
proof -
  have keep: "filter (\<lambda>e. page e = Some ''NextSong'' \<and> status e = Some 200)
       [play_hello, page_view, play_unnamed] = [play_hello, play_unnamed]"
    using sample_song_plays by (simp add: is_song_play_eq)
  have pv: "page page_view = Some ''PageView''"
    by (simp add: page_view_def)
  have "\<not> (\<exists>e \<in> set [play_hello, page_view, play_unnamed].
            page e = Some ''NextSong'' \<and> status e = Some 200 \<and>
            user_dim_row page_view = user_dim_row e)"
    by (simp add: pv user_dim_row_def play_hello_def page_view_def play_unnamed_def vint_def)
  with only_song_plays_reach_the_tables [OF sample_inputs, of utc_engine]
  have "user_dim_row page_view
      \<notin> set (table_rows (snd (main utc_engine sample_world)) users_path)"
    by blast
  with only_song_plays_reach_the_tables [OF sample_inputs, of utc_engine] keep sample_inputs pv
  show ?thesis by simp
qed

lemma time_dim_row_cases:
  "time_dim_row eng e =
     (case ts e of
        None \<Rightarrow> [VNull, VNull, VNull, VNull, VNull, VNull, VNull]
      | Some T \<Rightarrow> time_row_at eng T)"
  by (cases "ts e")
     (simp_all add: time_dim_row_def event_ts_def sql_div_def cast_timestamp_def
        apply_builtin_def vint_def time_row_at_def Let_def)

text \<open>
  C7. The time row of a song-play event whose \<open>ts\<close> is \<open>T\<close> has as \<open>start_time\<close> the
  engine's timestamp of \<open>T / 1000\<close>, and each other column is the engine's calendar
  function of that timestamp; the time table holds these rows and no others (an event
  without \<open>ts\<close> gives the row of nulls).
\<close>

theorem time_rows_are_functions_of_ts:
  assumes "song_json w song_data_path = Some ss" and "event_json w log_data_path = Some es"
  shows "(\<forall>e \<in> set es. \<forall>T.
            page e = Some ''NextSong'' \<and> status e = Some 200 \<and> ts e = Some T \<longrightarrow>
            time_row_at eng T \<in> set (table_rows (snd (main eng w)) time_path)) \<and>
         (\<forall>r \<in> set (table_rows (snd (main eng w)) time_path).
            \<exists>e \<in> set es. page e = Some ''NextSong'' \<and> status e = Some 200 \<and>
              r = (case ts e of
                     None \<Rightarrow> [VNull, VNull, VNull, VNull, VNull, VNull, VNull]
                   | Some T \<Rightarrow> time_row_at eng T)) \<and>
         table_columns (snd (main eng w)) time_path =
           [''start_time'', ''hour'', ''day'', ''week'', ''month'', ''year'', ''weekday''] \<and>
         (\<forall>T. time_row_at eng T =
            [VTs (double_to_timestamp eng (double_div eng T 1000)),
             VInt (hour_of eng (double_to_timestamp eng (double_div eng T 1000))),
             VInt (dayofmonth_of eng (double_to_timestamp eng (double_div eng T 1000))),
             VInt (weekofyear_of eng (double_to_timestamp eng (double_div eng T 1000))),
             VInt (month_of eng (double_to_timestamp eng (double_div eng T 1000))),
             VInt (year_of eng (double_to_timestamp eng (double_div eng T 1000))),
             VInt (dayofweek_of eng (double_to_timestamp eng (double_div eng T 1000)))])"
proof -
  have rows: "set (table_rows (snd (main eng w)) time_path) =
      time_dim_row eng ` {e \<in> set es. is_song_play e}"
    by (simp add: table_rows_def tables_after_run [OF assms] time_table_def)
  have there: "time_row_at eng T \<in> set (table_rows (snd (main eng w)) time_path)"
    if "e \<in> set es" "page e = Some ''NextSong''" "status e = Some 200" "ts e = Some T" for e T
  proof -
    from that have "time_dim_row eng e = time_row_at eng T" "is_song_play e"
      by (simp_all add: time_dim_row_cases is_song_play_def)
    with that(1) show ?thesis
      unfolding rows by force
  qed
  have only: "\<exists>e \<in> set es. page e = Some ''NextSong'' \<and> status e = Some 200 \<and>
      r = (case ts e of
             None \<Rightarrow> [VNull, VNull, VNull, VNull, VNull, VNull, VNull]
           | Some T \<Rightarrow> time_row_at eng T)"
    if "r \<in> set (table_rows (snd (main eng w)) time_path)" for r
    using that unfolding rows
    by (auto simp: is_song_play_def time_dim_row_cases)
  have cols: "table_columns (snd (main eng w)) time_path =
      [''start_time'', ''hour'', ''day'', ''week'', ''month'', ''year'', ''weekday'']"
    by (simp add: table_columns_def tables_after_run [OF assms] time_table_def)
  from there only cols show ?thesis
    by (simp add: time_row_at_def Let_def)
qed

lemma utc_time_row_of_hello:
  "time_row_at utc_engine 1500000000000 =
     [VTs 1500000000000000, VInt 2, VInt 14, VInt 28, VInt 7, VInt 2017, VInt 6]"
  by code_simp

theorem time_rows_are_functions_of_ts_witness:
  "song_json sample_world song_data_path = Some [hello_adele, hello_lionel, untitled] \<and>
   event_json sample_world log_data_path = Some [play_hello, page_view, play_unnamed] \<and>
   ts play_hello = Some 1500000000000 \<and>
   [VTs 1500000000000000, VInt 2, VInt 14, VInt 28, VInt 7, VInt 2017, VInt 6]
     \<in> set (table_rows (snd (main utc_engine sample_world)) time_path)"
proof -
  have t: "ts play_hello = Some 1500000000000"
    by (simp add: play_hello_def)
  have "play_hello \<in> set [play_hello, page_view, play_unnamed]"
    by simp
  with time_rows_are_functions_of_ts [OF sample_inputs, of utc_engine] sample_fields(1,2) t
  have "time_row_at utc_engine 1500000000000
      \<in> set (table_rows (snd (main utc_engine sample_world)) time_path)"
    by blast
  with sample_inputs t show ?thesis
    by (simp add: utc_time_row_of_hello)
qed

text \<open>
  C2, on the sample input. The songplays table is written partitioned by year then month,
  and its timestamp column carries the name \<open>event_ts\<close> of the events column it is
  selected from: the query gives it no alias, where the select list of the time table
  renames the same column to \<open>start_time\<close>.
\<close>

theorem songplays_timestamp_column_is_named_event_ts:
  "table_columns (snd (main utc_engine sample_world)) songplays_path =
     [''event_ts'', ''year'', ''month'', ''user_id'', ''level'', ''session_id'', ''location'',
      ''user_agent'', ''song_id'', ''artist_id''] \<and>
   ''start_time'' \<notin> set (table_columns (snd (main utc_engine sample_world)) songplays_path) \<and>
   table_partition (snd (main utc_engine sample_world)) songplays_path = [''year'', ''month''] \<and>
   ''start_time'' \<in> set (table_columns (snd (main utc_engine sample_world)) time_path)"
  by (simp add: table_columns_def table_partition_def tables_after_run [OF sample_inputs]
      songplays_after_run [OF sample_inputs sample_nonempty]
      songplays_table_def songplays_columns_def time_table_def)

text \<open>
  C3, as the code has it. The two schemas are literals of the pipelines that read with
  them. The song schema is the specification's list, in its order. The event schema has
  the names and types of the specification's list, each once, with \<open>last_name\<close> after
  \<open>item_in_session\<close> rather than after \<open>first_name\<close>; the data frames the readers return
  carry the columns of these schemas.
\<close>

theorem schemas_match_up_to_order:
  "song_schema = spec_song_schema \<and>
   event_schema =
     take 3 spec_event_schema @ take 2 (drop 4 spec_event_schema) @ [spec_event_schema ! 3] @
     drop 6 spec_event_schema \<and>
   set event_schema = set spec_event_schema \<and>
   distinct (map fst event_schema) \<and>
   length event_schema = length spec_event_schema \<and>
   (\<forall>w rs. song_json w song_data_path = Some rs \<longrightarrow>
      map_sum id columns (fst (read_song_json song_data_path w)) = Inr (map fst song_schema)) \<and>
   (\<forall>w es. event_json w log_data_path = Some es \<longrightarrow>
      map_sum id columns (fst (read_event_json log_data_path w)) = Inr (map fst event_schema))"
proof -
  have "song_schema = spec_song_schema"
    by (simp add: song_schema_def spec_song_schema_def)
  moreover have "event_schema =
     take 3 spec_event_schema @ take 2 (drop 4 spec_event_schema) @ [spec_event_schema ! 3] @
     drop 6 spec_event_schema"
    by (simp add: event_schema_def spec_event_schema_def)
  moreover have "set event_schema = set spec_event_schema"
    by (simp add: event_schema_def spec_event_schema_def insert_commute)
  moreover have "distinct (map fst event_schema)"
    by (simp add: event_schema_def)
  moreover have "length event_schema = length spec_event_schema"
    by (simp add: event_schema_def spec_event_schema_def)
  ultimately show ?thesis
    by (simp add: read_song_json_def read_event_json_def)
qed

theorem schemas_match_up_to_order_witness:
  "song_json sample_world song_data_path = Some [hello_adele, hello_lionel, untitled] \<and>
   map_sum id columns (fst (read_song_json song_data_path sample_world)) =
     Inr (map fst spec_song_schema) \<and>
   event_json sample_world log_data_path = Some [play_hello, page_view, play_unnamed] \<and>
   map_sum id columns (fst (read_event_json log_data_path sample_world)) =
     Inr (map fst event_schema)"
  using schemas_match_up_to_order sample_inputs by simp

text \<open>
  C3, as the specification states it, fails on the order: the fourth column of the event
  schema is \<open>gender\<close>, where the specification's list has \<open>last_name\<close>.
\<close>

theorem event_schema_order_differs:
  "event_schema \<noteq> spec_event_schema \<and>
   fst (event_schema ! 3) = ''gender'' \<and>
   fst (spec_event_schema ! 3) = ''last_name'' \<and>
   fst (event_schema ! 5) = ''last_name''"
  by (simp add: event_schema_def spec_event_schema_def)

end
